theory Spec2Isabelle
  imports Main
begin

section \<open>Wire structures\<close>

subsection \<open>cmd/blobber/root.go\<close>

text \<open>
  \<^verbatim>\<open>BlobError\<close>, \<^verbatim>\<open>BlobProperties\<close>, \<^verbatim>\<open>Blob\<close> and \<^verbatim>\<open>EnumerationResults\<close> of root.go.
  The Go wrapper struct \<^verbatim>\<open>Blobs{Blob []Blob}\<close> is flattened: field \<open>Blobs\<close> of
  \<open>EnumerationResults\<close> is the slice \<^verbatim>\<open>results.Blobs.Blob\<close>.
\<close>

record BlobError =
  Code :: string
  Message :: string

record BlobProperties =
  CreationTime :: string
  LastModified :: string
  Etag :: string
  ContentLength :: int
  ContentType :: string
  ContentEncoding :: string
  ContentLanguage :: string
  ContentCRC64 :: string
  ContentMD5 :: string
  CacheControl :: string
  ContentDisposition :: string
  BlobType :: string
  AccessTier :: string

record Blob =
  Name :: string
  Properties :: BlobProperties

record EnumerationResults =
  ServiceEndpoint :: string
  ContainerName :: string
  Blobs :: "Blob list"
  NextMarker :: string

subsection \<open>pkg/azure/types.go\<close>

record Config =
  Accounts :: string
  Containers :: string
  Download :: bool
  Output :: string
  SkipSSL :: bool
  MaxGoroutines :: int
  MaxParallelDownload :: int
  BaseDomain :: string
  Debug :: bool

record ErrorResponse =
  ErrorResponse_Code :: string
  ErrorResponse_Message :: string

record AccessResult =
  Account :: string
  Container :: string
  IsPublic :: bool
  ErrorCode :: string
  URL :: string
  AccessResult_Blobs :: "string list"

section \<open>The environment: HTTP and the standard library\<close>

text \<open>
  What one \<^verbatim>\<open>client.Get\<close> followed by \<^verbatim>\<open>io.ReadAll\<close> observes: the request failed
  (\<open>GetError\<close>), the response arrived with a status but its body could not be read
  (\<open>ReadError\<close>), or status and body were both captured (\<open>Response\<close>).
  The body type \<open>'b\<close> is left open.
\<close>

datatype 'b http_outcome = GetError | ReadError int | Response int 'b

text \<open>
  The functions of Go's standard library the code calls on a body or a marker:
  \<^verbatim>\<open>xml.Unmarshal\<close> into each of the three target structs (\<open>None\<close> is a non-nil error)
  and \<^verbatim>\<open>url.QueryEscape\<close>. They are parameters of the model.
\<close>

record 'b lib =
  xml_BlobError :: "'b \<Rightarrow> BlobError option"
  xml_EnumerationResults :: "'b \<Rightarrow> EnumerationResults option"
  xml_ErrorResponse :: "'b \<Rightarrow> ErrorResponse option"
  QueryEscape :: "string \<Rightarrow> string"

section \<open>Scanner.checkAccess (pkg/azure/types.go)\<close>

text \<open>
  Debug printing is left out: it does not touch \<^verbatim>\<open>result\<close>. The status is tested before
  the body is read, so a 200 response whose body cannot be read is still public.
\<close>

definition checkAccess ::
  "'b lib \<Rightarrow> Config \<Rightarrow> string \<Rightarrow> string \<Rightarrow> 'b http_outcome \<Rightarrow> AccessResult" where
  "checkAccess L config account container resp =
     (let url = ''https://'' @ account @ ''.'' @ BaseDomain config @ ''/'' @ container
                  @ ''?restype=container'';
          result = \<lparr>Account = account, Container = container, IsPublic = False,
                    ErrorCode = [], URL = url, AccessResult_Blobs = []\<rparr>
      in case resp of
           GetError \<Rightarrow> result\<lparr>ErrorCode := ''RequestFailed''\<rparr>
         | ReadError status \<Rightarrow>
             if status = 200 then result\<lparr>IsPublic := True\<rparr>
             else result\<lparr>ErrorCode := ''ReadFailed''\<rparr>
         | Response status body \<Rightarrow>
             if status = 200 then result\<lparr>IsPublic := True\<rparr>
             else (case xml_ErrorResponse L body of
                     None \<Rightarrow> result\<lparr>IsPublic := True\<rparr>
                   | Some errorResp \<Rightarrow>
                       if ErrorResponse_Code errorResp = [] then result\<lparr>IsPublic := True\<rparr>
                       else result\<lparr>ErrorCode := ErrorResponse_Code errorResp\<rparr>))"

section \<open>checkContainer (cmd/blobber/root.go)\<close>

text \<open>The command line flags (package level variables of root.go).\<close>

record flags =
  accounts :: string
  containers :: string
  isDownload :: bool
  outputPath :: string
  skipSSL :: bool
  maxGoroutines :: int
  maxParallelDownload :: int
  debug :: bool
  listBlobs :: bool
  limit :: int
  baseDomain :: string
  totalCount :: bool

text \<open>
  The return paths of \<^verbatim>\<open>checkContainer\<close>. The three \<open>Found\<close> reports are the three
  \<^verbatim>\<open>[FOUND]\<close> messages; each of them increments \<^verbatim>\<open>foundContainers\<close>.
\<close>

datatype found_report = TotalBlobs int | MoreThan5000 | BlobCount nat

datatype probe_exit =
    RequestError
  | BodyReadError
  | NoAuthenticationInformation
  | PublicAccessNotPermitted
  | OtherErrorCode string string
  | NotAccessibleOrEmpty
  | Found found_report

text \<open>The call that ends \<^verbatim>\<open>checkContainer\<close> (lines 567-575).\<close>

datatype sink_call =
    downloadBlobs_call string string "Blob list"
  | saveBlobList_call string string "Blob list"
  | listBlobURLs_call string string "Blob list"
  | count_only

record outcome =
  exit :: probe_exit
  requests :: "string list"
  foundContainers :: int
  action :: "sink_call option"

text \<open>
  Lines 340-363: the switch on \<^verbatim>\<open>blobError.Code\<close>. \<open>None\<close> means that control goes on
  to the \<^verbatim>\<open>EnumerationResults\<close> parse.
\<close>

definition errorSwitch :: "'b lib \<Rightarrow> 'b \<Rightarrow> probe_exit option" where
  "errorSwitch L body =
     (case xml_BlobError L body of
        None \<Rightarrow> None
      | Some blobError \<Rightarrow>
          if Code blobError = [] then None
          else if Code blobError = ''NoAuthenticationInformation''
            then Some NoAuthenticationInformation
          else if Code blobError = ''PublicAccessNotPermitted''
            then Some PublicAccessNotPermitted
          else if Code blobError = ''ResourceNotFound'' then None
          else Some (OtherErrorCode (Code blobError) (Message blobError)))"

text \<open>
  The two marker loops. The list of outcomes is what the successive \<^verbatim>\<open>client.Get\<close> calls
  of the walk observe, in order; a loop that needs another response when the list is
  used up has no result (\<open>None\<close>). Each loop returns the URLs it requested and the
  outcomes it did not consume.

  Lines 403-454, the counting walk of \<^verbatim>\<open>--total\<close>.
\<close>

fun countLoop ::
  "'b lib \<Rightarrow> string \<Rightarrow> string \<Rightarrow> int \<Rightarrow> 'b http_outcome list
     \<Rightarrow> (int \<times> string list \<times> 'b http_outcome list) option" where
  "countLoop L listURL nextMarker totalBlobCount [] =
     (if nextMarker = [] then Some (totalBlobCount, [], []) else None)"
| "countLoop L listURL nextMarker totalBlobCount (r # rs) =
     (if nextMarker = [] then Some (totalBlobCount, [], r # rs)
      else
        let nextURL = listURL @ ''&marker='' @ QueryEscape L nextMarker in
        case r of
          GetError \<Rightarrow> Some (totalBlobCount, [nextURL], rs)
        | ReadError status \<Rightarrow> Some (totalBlobCount, [nextURL], rs)
        | Response status body \<Rightarrow>
            (case xml_EnumerationResults L body of
               None \<Rightarrow> Some (totalBlobCount, [nextURL], rs)
             | Some nextResults \<Rightarrow>
                 (case countLoop L listURL (NextMarker nextResults)
                         (totalBlobCount + int (length (Blobs nextResults))) rs of
                    None \<Rightarrow> None
                  | Some (cnt, urls, rest) \<Rightarrow> Some (cnt, nextURL # urls, rest))))"

text \<open>Lines 510-556, the walk that collects blobs up to \<^verbatim>\<open>limit\<close>.\<close>

fun listLoop ::
  "'b lib \<Rightarrow> int \<Rightarrow> string \<Rightarrow> string \<Rightarrow> Blob list \<Rightarrow> 'b http_outcome list
     \<Rightarrow> (Blob list \<times> string list \<times> 'b http_outcome list) option" where
  "listLoop L lim listURL nextMarker allBlobs [] =
     (if nextMarker \<noteq> [] \<and> int (length allBlobs) < lim then None
      else Some (allBlobs, [], []))"
| "listLoop L lim listURL nextMarker allBlobs (r # rs) =
     (if nextMarker \<noteq> [] \<and> int (length allBlobs) < lim then
        let nextURL = listURL @ ''&marker='' @ QueryEscape L nextMarker in
        case r of
          GetError \<Rightarrow> Some (allBlobs, [nextURL], rs)
        | ReadError status \<Rightarrow> Some (allBlobs, [nextURL], rs)
        | Response status body \<Rightarrow>
            (case xml_EnumerationResults L body of
               None \<Rightarrow> Some (allBlobs, [nextURL], rs)
             | Some nextResults \<Rightarrow>
                 (case listLoop L lim listURL (NextMarker nextResults)
                         (allBlobs @ Blobs nextResults) rs of
                    None \<Rightarrow> None
                  | Some (blobs, urls, rest) \<Rightarrow> Some (blobs, nextURL # urls, rest)))
      else Some (allBlobs, [], r # rs))"

text \<open>Lines 376-482: the report, with the counting walk when \<^verbatim>\<open>--total\<close> asks for it.\<close>

definition report ::
  "'b lib \<Rightarrow> flags \<Rightarrow> string \<Rightarrow> EnumerationResults \<Rightarrow> 'b http_outcome list
     \<Rightarrow> (found_report \<times> string list \<times> 'b http_outcome list) option" where
  "report L F listURL results rs =
     (if totalCount F \<and> NextMarker results \<noteq> [] then
        (case countLoop L listURL (NextMarker results) (int (length (Blobs results))) rs of
           None \<Rightarrow> None
         | Some (cnt, urls, rest) \<Rightarrow> Some (TotalBlobs cnt, urls, rest))
      else if 5000 \<le> length (Blobs results) then Some (MoreThan5000, [], rs)
      else Some (BlobCount (length (Blobs results)), [], rs))"

text \<open>Lines 484-564: the blobs handed to the sink.\<close>

definition collect ::
  "'b lib \<Rightarrow> flags \<Rightarrow> string \<Rightarrow> EnumerationResults \<Rightarrow> 'b http_outcome list
     \<Rightarrow> (Blob list \<times> string list \<times> 'b http_outcome list) option" where
  "collect L F listURL results rs =
     (case (if 5000 < limit F \<and> NextMarker results \<noteq> []
            then listLoop L (limit F) listURL (NextMarker results) (Blobs results) rs
            else Some (Blobs results, [], rs)) of
        None \<Rightarrow> None
      | Some (allBlobs, urls, rest) \<Rightarrow>
          Some (if 0 < limit F \<and> limit F < int (length allBlobs)
                then take (nat (limit F)) allBlobs else allBlobs, urls, rest))"

text \<open>Lines 566-575.\<close>

definition dispatch :: "flags \<Rightarrow> string \<Rightarrow> string \<Rightarrow> Blob list \<Rightarrow> sink_call" where
  "dispatch F account container allBlobs =
     (if isDownload F then downloadBlobs_call account container allBlobs
      else if outputPath F \<noteq> [] then saveBlobList_call account container allBlobs
      else if listBlobs F then listBlobURLs_call account container allBlobs
      else count_only)"

text \<open>
  \<^verbatim>\<open>checkContainer\<close>. The first outcome of the list is the probe request itself, the
  following ones are those of the counting walk and then of the collecting walk; the
  result is \<open>None\<close> when the list is used up before the function returns. The argument
  \<open>found\<close> is the value of the shared counter \<^verbatim>\<open>foundContainers\<close> when the worker updates
  it. Debug printing is left out.
\<close>

definition checkContainer ::
  "'b lib \<Rightarrow> flags \<Rightarrow> int \<Rightarrow> string \<Rightarrow> string \<Rightarrow> 'b http_outcome list \<Rightarrow> outcome option" where
  "checkContainer L F found account container rs =
     (let baseURL = ''https://'' @ account @ ''.'' @ baseDomain F @ ''/'' @ container;
          listURL = baseURL @ ''?restype=container&comp=list'';
          stop = (\<lambda>e. Some \<lparr>exit = e, requests = [listURL], foundContainers = found,
                            action = None\<rparr>)
      in case rs of
           [] \<Rightarrow> None
         | GetError # rs1 \<Rightarrow> stop RequestError
         | ReadError status # rs1 \<Rightarrow> stop BodyReadError
         | Response status body # rs1 \<Rightarrow>
             (case errorSwitch L body of
                Some e \<Rightarrow> stop e
              | None \<Rightarrow>
                  (case xml_EnumerationResults L body of
                     None \<Rightarrow> stop NotAccessibleOrEmpty
                   | Some results \<Rightarrow>
                       if length (Blobs results) = 0 then stop NotAccessibleOrEmpty
                       else
                         (case report L F listURL results rs1 of
                            None \<Rightarrow> None
                          | Some (rep, urls1, rs2) \<Rightarrow>
                              (case collect L F listURL results rs2 of
                                 None \<Rightarrow> None
                               | Some (allBlobs, urls2, rs3) \<Rightarrow>
                                   Some \<lparr>exit = Found rep,
                                         requests = listURL # urls1 @ urls2,
                                         foundContainers = found + 1,
                                         action = Some (dispatch F account container allBlobs)\<rparr>)))))"

text \<open>The pair is classified public exactly when a \<^verbatim>\<open>[FOUND]\<close> line is reported.\<close>

fun isPublic :: "outcome option \<Rightarrow> bool" where
  "isPublic (Some out) = (case exit out of Found rep \<Rightarrow> True | _ \<Rightarrow> False)"
| "isPublic None = False"

text \<open>Lines 578-604: the lines \<^verbatim>\<open>listBlobURLs\<close> prints, one per blob.\<close>

definition listBlobURLs :: "flags \<Rightarrow> string \<Rightarrow> string \<Rightarrow> Blob list \<Rightarrow> string list" where
  "listBlobURLs F account container blobs =
     map (\<lambda>blob. ''https://'' @ account @ ''.'' @ baseDomain F @ ''/'' @ container
                   @ ''/'' @ Name blob) blobs"

section \<open>The scan driver (RootCmd.Run, cmd/blobber/root.go)\<close>

text \<open>
  What the main goroutine does, in program order, when none of its sends on \<^verbatim>\<open>sem\<close> blocks
  for ever (the interleaving with the workers is the subject of the step relation
  below). \<open>LookupHost\<close> is one call of
  \<^verbatim>\<open>domainExists\<close>, \<open>Acquire\<close> the send \<^verbatim>\<open>sem <- struct{}{}\<close> made for a pair, \<open>Go\<close> the
  \<^verbatim>\<open>go\<close> statement that starts the worker calling \<^verbatim>\<open>checkContainer\<close> on the pair;
  \<open>Skipped\<close> is the progress update for an account that does not resolve.
\<close>

datatype main_event =
    ConfigError
  | NoAccounts
  | NoContainers
  | MakeChanPanic
  | LookupHost string
  | Skipped string nat
  | Acquire string string
  | Go string string
  | WaitAll
  | Summary

text \<open>Lines 202-219, the inner loop over \<^verbatim>\<open>containerList\<close>.\<close>

fun containerLoop :: "string \<Rightarrow> string list \<Rightarrow> main_event list" where
  "containerLoop account [] = []"
| "containerLoop account (container # cs) =
     Acquire account container # Go account container # containerLoop account cs"

text \<open>
  Lines 185-220, the loop over \<^verbatim>\<open>accountList\<close>. The parameter \<open>domainExists\<close> is the
  function of that name (lines 302-306): whether \<^verbatim>\<open>net.LookupHost\<close> returns no error.
\<close>

fun accountLoop ::
  "(string \<Rightarrow> bool) \<Rightarrow> string \<Rightarrow> string list \<Rightarrow> string list \<Rightarrow> main_event list" where
  "accountLoop domainExists base [] containerList = []"
| "accountLoop domainExists base (account # as) containerList =
     LookupHost (account @ ''.'' @ base) #
     (if \<not> domainExists (account @ ''.'' @ base)
      then Skipped account (length containerList) #
           accountLoop domainExists base as containerList
      else containerLoop account containerList @
           accountLoop domainExists base as containerList)"

text \<open>Lines 123-126: the limit the workers see.\<close>

definition effectiveFlags :: "flags \<Rightarrow> flags" where
  "effectiveFlags F =
     (if \<not> isDownload F \<and> outputPath F \<noteq> [] \<and> limit F = 10 then F\<lparr>limit := 99999\<rparr> else F)"

text \<open>
  Lines 115-232. \<open>processInput\<close> (lines 259-300) reads a file or splits its argument at
  commas; it is a parameter here. \<^verbatim>\<open>make(chan struct{}, maxGoroutines)\<close> panics on a
  negative size.
\<close>

definition Run ::
  "(string \<Rightarrow> string list) \<Rightarrow> (string \<Rightarrow> bool) \<Rightarrow> flags \<Rightarrow> main_event list" where
  "Run processInput domainExists F =
     (if outputPath F \<noteq> [] \<and> listBlobs F then [ConfigError]
      else
        let accountList = processInput (accounts F) in
        if length accountList = 0 then [NoAccounts]
        else
          let containerList = processInput (containers F) in
          if length containerList = 0 then [NoContainers]
          else if maxGoroutines F < 0 then [MakeChanPanic]
          else accountLoop domainExists (baseDomain F) accountList containerList
                 @ [WaitAll, Summary])"

text \<open>The name lookups of a run, and the pairs for which a worker is started.\<close>

fun lookups :: "main_event list \<Rightarrow> string list" where
  "lookups [] = []"
| "lookups (LookupHost d # es) = d # lookups es"
| "lookups (e # es) = lookups es"

fun jobs :: "main_event list \<Rightarrow> (string \<times> string) list" where
  "jobs [] = []"
| "jobs (Go account container # es) = (account, container) # jobs es"
| "jobs (e # es) = jobs es"


subsection \<open>The semaphore and the workers\<close>

text \<open>
  The interleaving of the main goroutine with its workers, as far as the channel
  \<^verbatim>\<open>sem\<close> is concerned: \<open>pending\<close> are the pairs the loops have still to dispatch,
  \<open>acquired\<close> is the pair for which the main goroutine has sent on \<^verbatim>\<open>sem\<close> but not yet
  executed \<^verbatim>\<open>go\<close>, \<open>sem\<close> the number of elements in the channel, \<open>probing\<close> the workers
  inside \<^verbatim>\<open>checkContainer\<close>, and \<open>releasing\<close> the number of workers whose
  \<^verbatim>\<open>checkContainer\<close> has returned and whose deferred \<^verbatim>\<open><-sem\<close> is still to run.
\<close>

record pool =
  pending :: "(string \<times> string) list"
  acquired :: "(string \<times> string) option"
  sem :: nat
  probing :: "(string \<times> string) list"
  releasing :: nat

definition start :: "(string \<times> string) list \<Rightarrow> pool" where
  "start js = \<lparr>pending = js, acquired = None, sem = 0, probing = [], releasing = 0\<rparr>"

text \<open>
  \<open>send\<close> is line 204 (it blocks while the channel holds \<open>N\<close> elements), \<open>spawn\<close> line
  205, \<open>return\<close> the end of \<^verbatim>\<open>checkContainer\<close> in some worker (line 217), \<open>receive\<close> the
  deferred \<^verbatim>\<open><-sem\<close> (line 208).
\<close>

inductive step :: "int \<Rightarrow> pool \<Rightarrow> pool \<Rightarrow> bool" for N :: int where
  send: "pending s = j # js \<Longrightarrow> acquired s = None \<Longrightarrow> int (sem s) < N \<Longrightarrow>
         step N s (s\<lparr>pending := js, acquired := Some j, sem := sem s + 1\<rparr>)"
| spawn: "acquired s = Some j \<Longrightarrow>
         step N s (s\<lparr>acquired := None, probing := j # probing s\<rparr>)"
| return: "i < length (probing s) \<Longrightarrow>
         step N s (s\<lparr>probing := take i (probing s) @ drop (Suc i) (probing s),
                      releasing := releasing s + 1\<rparr>)"
| receive: "0 < releasing s \<Longrightarrow> 0 < sem s \<Longrightarrow>
         step N s (s\<lparr>releasing := releasing s - 1, sem := sem s - 1\<rparr>)"

code_pred step .

definition balanced :: "int \<Rightarrow> pool \<Rightarrow> bool" where
  "balanced N s \<longleftrightarrow>
     length (probing s) + releasing s + (case acquired s of None \<Rightarrow> 0 | Some j \<Rightarrow> 1) = sem s \<and>
     int (sem s) \<le> N"

section \<open>DownloadFile (package downloader)\<close>

text \<open>
  The outcomes of the calls \<^verbatim>\<open>DownloadFile\<close> makes: whether \<^verbatim>\<open>os.MkdirAll\<close> and
  \<^verbatim>\<open>os.Create\<close> succeed, what \<^verbatim>\<open>client.Get\<close> returns (\<open>None\<close> for an error, else status
  and body), and whether \<^verbatim>\<open>io.Copy\<close> fails, after how many bytes written (\<open>None\<close> when
  it copies the whole body). The file system is a map from paths to contents;
  \<^verbatim>\<open>os.Create\<close> creates the file or truncates the one that exists.
\<close>

datatype download_error =
    MkdirFailed | CreateFailed | RequestFailed | BadStatus int | WriteFailed

record download_env =
  mkdir_ok :: bool
  create_ok :: bool
  fetch :: "(int \<times> string) option"
  copy_stops :: "nat option"

definition DownloadFile ::
  "download_env \<Rightarrow> (string \<rightharpoonup> string) \<Rightarrow> string
     \<Rightarrow> (download_error + unit) \<times> (string \<rightharpoonup> string)" where
  "DownloadFile E files destPath =
     (if \<not> mkdir_ok E then (Inl MkdirFailed, files)
      else if \<not> create_ok E then (Inl CreateFailed, files)
      else
        let files1 = files(destPath \<mapsto> []) in
        case fetch E of
          None \<Rightarrow> (Inl RequestFailed, files1)
        | Some (status, body) \<Rightarrow>
            if status \<noteq> 200 then (Inl (BadStatus status), files1)
            else (case copy_stops E of
                    Some k \<Rightarrow> (Inl WriteFailed, files1(destPath \<mapsto> take k body))
                  | None \<Rightarrow> (Inr (), files1(destPath \<mapsto> body))))"

section \<open>Notions used in the statements\<close>

text \<open>The page a response decodes to, if it does.\<close>

definition decode :: "'b lib \<Rightarrow> 'b http_outcome \<Rightarrow> EnumerationResults option" where
  "decode L r = (case r of Response status body \<Rightarrow> xml_EnumerationResults L body | _ \<Rightarrow> None)"

text \<open>The URLs of the probe and of the request for the page after \<open>marker\<close>.\<close>

definition containerListURL :: "flags \<Rightarrow> string \<Rightarrow> string \<Rightarrow> string" where
  "containerListURL F account container =
     ''https://'' @ account @ ''.'' @ baseDomain F @ ''/'' @ container
       @ ''?restype=container&comp=list''"

definition markerURL :: "'b lib \<Rightarrow> string \<Rightarrow> string \<Rightarrow> string" where
  "markerURL L listURL marker = listURL @ ''&marker='' @ QueryEscape L marker"

text \<open>The responses \<open>rs\<close> are successful and decode to the pages \<open>ps\<close>, one by one.\<close>

definition serves :: "'b lib \<Rightarrow> 'b http_outcome list \<Rightarrow> EnumerationResults list \<Rightarrow> bool" where
  "serves L rs ps = (map (decode L) rs = map Some ps)"


text \<open>The records of a sequence of pages, in page order.\<close>

definition records :: "EnumerationResults list \<Rightarrow> Blob list" where
  "records ps = concat (map Blobs ps)"


section \<open>A concrete instance\<close>

text \<open>
  To run the model on explicit inputs, bodies are taken as documents that are already
  parsed: not well-formed XML, an \<^verbatim>\<open><Error>\<close> element with its code and message, an
  \<^verbatim>\<open><EnumerationResults>\<close> element with its blobs and marker, or another element. The
  decoders follow \<^verbatim>\<open>encoding/xml\<close>: a struct whose \<^verbatim>\<open>XMLName\<close> field is tagged with a name
  (\<^verbatim>\<open>BlobError\<close> and \<^verbatim>\<open>EnumerationResults\<close> of root.go) only accepts an element of that
  name, and a struct without one (\<^verbatim>\<open>ErrorResponse\<close> of types.go) accepts any well-formed
  document and leaves \<^verbatim>\<open>Code\<close> empty when there is no such child. \<open>QueryEscape\<close> is the
  identity, as it is on the markers used below (letters and digits).
\<close>

definition no_properties :: BlobProperties where
  "no_properties =
     \<lparr>CreationTime = [], LastModified = [], Etag = [], ContentLength = 0, ContentType = [],
      ContentEncoding = [], ContentLanguage = [], ContentCRC64 = [], ContentMD5 = [],
      CacheControl = [], ContentDisposition = [], BlobType = [], AccessTier = []\<rparr>"

definition blob :: "string \<Rightarrow> Blob" where
  "blob n = \<lparr>Name = n, Properties = no_properties\<rparr>"

definition page :: "Blob list \<Rightarrow> string \<Rightarrow> EnumerationResults" where
  "page bs marker = \<lparr>ServiceEndpoint = [], ContainerName = [], Blobs = bs, NextMarker = marker\<rparr>"

datatype document = Malformed | ErrorDoc string string | ListingDoc "Blob list" string | OtherDoc

definition doc_lib :: "document lib" where
  "doc_lib =
     \<lparr>xml_BlobError =
        (\<lambda>d. case d of ErrorDoc c m \<Rightarrow> Some \<lparr>Code = c, Message = m\<rparr> | _ \<Rightarrow> None),
      xml_EnumerationResults =
        (\<lambda>d. case d of ListingDoc bs m \<Rightarrow> Some (page bs m) | _ \<Rightarrow> None),
      xml_ErrorResponse =
        (\<lambda>d. case d of
                Malformed \<Rightarrow> None
              | ErrorDoc c m \<Rightarrow> Some \<lparr>ErrorResponse_Code = c, ErrorResponse_Message = m\<rparr>
              | _ \<Rightarrow> Some \<lparr>ErrorResponse_Code = [], ErrorResponse_Message = []\<rparr>),
      QueryEscape = (\<lambda>s. s)\<rparr>"

text \<open>The default values of the flags (lines 243-256), and two variations.\<close>

definition default_flags :: flags where
  "default_flags =
     \<lparr>accounts = [], containers = [], isDownload = False, outputPath = [], skipSSL = True,
      maxGoroutines = 500, maxParallelDownload = 10, debug = False, listBlobs = False,
      limit = 10, baseDomain = ''blob.core.windows.net'', totalCount = False\<rparr>"

definition list_flags :: flags where
  "list_flags = default_flags\<lparr>listBlobs := True\<rparr>"

definition list6000_flags :: flags where
  "list6000_flags = default_flags\<lparr>listBlobs := True, limit := 6000\<rparr>"

definition sample_config :: Config where
  "sample_config =
     \<lparr>Accounts = [], Containers = [], Download = False, Output = [], SkipSSL = True,
      MaxGoroutines = 500, MaxParallelDownload = 10, BaseDomain = ''blob.core.windows.net'',
      Debug = False\<rparr>"

definition walk_responses :: "document http_outcome list" where
  "walk_responses =
     [Response 200 (ListingDoc [blob ''b''] ''m2''), Response 200 (ListingDoc [blob ''c''] [])]"




text \<open>
  A scan of two accounts and one container, of which only the second account resolves.
  \<open>sample_input\<close> is what \<^verbatim>\<open>processInput\<close> returns on the two comma-separated arguments.
\<close>

definition sample_input :: "string \<Rightarrow> string list" where
  "sample_input s =
     (if s = ''acct1,acct2'' then [''acct1'', ''acct2''] else if s = ''c1'' then [''c1''] else [])"

definition sample_dns :: "string \<Rightarrow> bool" where
  "sample_dns d = (d = ''acct2.blob.core.windows.net'')"

definition scan_flags :: flags where
  "scan_flags = default_flags\<lparr>accounts := ''acct1,acct2'', containers := ''c1'', maxGoroutines := 1\<rparr>"

definition one_probing :: pool where
  "one_probing =
     \<lparr>pending = [], acquired = None, sem = 1, probing = [(''acct2'', ''c1'')], releasing = 0\<rparr>"

definition sample_env :: "(int \<times> string) option \<Rightarrow> nat option \<Rightarrow> download_env" where
  "sample_env response stops =
     \<lparr>mkdir_ok = True, create_ok = True, fetch = response, copy_stops = stops\<rparr>"

section \<open>Classification\<close>

lemma errorSwitch_not_Found: "errorSwitch L body \<noteq> Some (Found rep)"
  unfolding errorSwitch_def by (simp split: option.splits)

lemma errorSwitch_pass:
  assumes "xml_BlobError L body = Some blobError"
    and "Code blobError = [] \<or> Code blobError = ''ResourceNotFound''"
  shows "errorSwitch L body = None"
  using assms unfolding errorSwitch_def by auto

lemma isPublic_checkContainer:
  assumes "checkContainer L F found account container (Response status body # rs) = Some out"
  shows "isPublic (Some out) \<longleftrightarrow>
           errorSwitch L body = None \<and>
           (\<exists>results. xml_EnumerationResults L body = Some results \<and> Blobs results \<noteq> [])"
proof (cases "errorSwitch L body")
  case None
  with assms show ?thesis
    unfolding checkContainer_def Let_def
    by (auto split: option.splits if_splits prod.splits)
next
  case (Some e)
  with assms have "exit out = e"
    unfolding checkContainer_def Let_def by auto
  moreover have "\<And>rep. e \<noteq> Found rep"
    using Some errorSwitch_not_Found [of L body] by auto
  ultimately show ?thesis
    using Some by (cases e) auto
qed

lemma checkContainer_status:
  "checkContainer L F found account container (Response status body # rs) =
   checkContainer L F found account container (Response status' body # rs)"
  unfolding checkContainer_def by simp

lemma checkContainer_Found:
  assumes "errorSwitch L body = None" and "xml_EnumerationResults L body = Some p0"
    and "Blobs p0 \<noteq> []"
    and "report L F (containerListURL F account container) p0 rs1 = Some (rep, urls1, rs2)"
    and "collect L F (containerListURL F account container) p0 rs2 = Some (bs, urls2, rs3)"
  shows "checkContainer L F found account container (Response status body # rs1) =
           Some \<lparr>exit = Found rep,
                 requests = containerListURL F account container # urls1 @ urls2,
                 foundContainers = found + 1,
                 action = Some (dispatch F account container bs)\<rparr>"
  using assms unfolding checkContainer_def containerListURL_def by simp

text \<open>
  With the default flags no marker is followed: a probe whose body is a listing with
  one blob is reported with its count, and nothing is handed on.
\<close>

lemma checkContainer_one_blob:
  "checkContainer doc_lib default_flags 0 ''acct1'' ''c1''
     (Response status (ListingDoc [blob ''a''] []) # rs) =
   Some \<lparr>exit = Found (BlobCount 1),
         requests = [''https://acct1.blob.core.windows.net/c1?restype=container&comp=list''],
         foundContainers = 1, action = Some count_only\<rparr>"
  by (simp add: checkContainer_def errorSwitch_def report_def collect_def dispatch_def
      doc_lib_def page_def default_flags_def)

text \<open>
  Claim C1, as amended. \<^verbatim>\<open>Scanner.checkAccess\<close> classifies every response of status
  200 as public, whatever its body. \<^verbatim>\<open>checkContainer\<close> does not consult the status: its
  result is the same for every status, and whenever it returns, the pair is public
  exactly when the body passes the switch on the error code and parses as
  \<^verbatim>\<open>EnumerationResults\<close> with at least one blob.
\<close>

theorem status_200_classification:
  "IsPublic (checkAccess L config account container (Response 200 body)) \<and>
   checkContainer L F found account container (Response status body # rs) =
     checkContainer L F found account container (Response 200 body # rs) \<and>
   (checkContainer L F found account container (Response 200 body # rs) = Some out \<longrightarrow>
      (isPublic (Some out) \<longleftrightarrow>
         errorSwitch L body = None \<and>
         (\<exists>results. xml_EnumerationResults L body = Some results \<and> Blobs results \<noteq> [])))"
  using isPublic_checkContainer [of L F found account container 200 body rs out]
    checkContainer_status [of L F found account container status body rs 200]
  by (simp add: checkAccess_def)

text \<open>
  The theorem at a listing with one blob, received with status 200: both functions
  classify the pair as public.
\<close>

theorem status_200_classification_witness:
  "checkContainer doc_lib default_flags 0 ''acct1'' ''c1''
     [Response 200 (ListingDoc [blob ''a''] [])] =
     Some \<lparr>exit = Found (BlobCount 1),
           requests = [''https://acct1.blob.core.windows.net/c1?restype=container&comp=list''],
           foundContainers = 1, action = Some count_only\<rparr> \<and>
   IsPublic (checkAccess doc_lib sample_config ''acct1'' ''c1''
     (Response 200 (ListingDoc [blob ''a''] []))) \<and>
   isPublic (Some \<lparr>exit = Found (BlobCount 1),
           requests = [''https://acct1.blob.core.windows.net/c1?restype=container&comp=list''],
           foundContainers = 1, action = Some count_only\<rparr>) \<and>
   errorSwitch doc_lib (ListingDoc [blob ''a''] []) = None \<and>
   (\<exists>results. xml_EnumerationResults doc_lib (ListingDoc [blob ''a''] []) = Some results \<and>
      Blobs results \<noteq> [])"
  using status_200_classification [where L = doc_lib and config = sample_config
      and account = "''acct1''" and container = "''c1''"
      and body = "ListingDoc [blob ''a''] []" and F = default_flags and found = 0
      and status = 200 and rs = "[]"
      and out = "\<lparr>exit = Found (BlobCount 1),
           requests = [''https://acct1.blob.core.windows.net/c1?restype=container&comp=list''],
           foundContainers = 1, action = Some count_only\<rparr>"]
    checkContainer_one_blob [of 200 "[]"]
  by simp

text \<open>
  Claim C1 as stated fails: a response of status 200 whose body is a listing without
  blobs is not classified as public by \<^verbatim>\<open>checkContainer\<close> (lines 367-373).
\<close>

theorem status_200_empty_listing_not_public:
  "\<not> isPublic (checkContainer doc_lib default_flags 0 ''acct1'' ''c1''
                  [Response 200 (ListingDoc [] [])])"
  by (simp add: checkContainer_def doc_lib_def page_def errorSwitch_def)

text \<open>
  Claim C2, as amended. In \<^verbatim>\<open>Scanner.checkAccess\<close>, a response of another status than
  200 whose body parses as the error schema with an empty code is classified as public.
  In \<^verbatim>\<open>checkContainer\<close>, a body that parses as the error schema with the code empty or
  \<^verbatim>\<open>ResourceNotFound\<close> passes the switch on the code, and whenever the function returns,
  the pair is public exactly when the same body also parses as \<^verbatim>\<open>EnumerationResults\<close>
  with at least one blob.
\<close>

theorem empty_or_ResourceNotFound_code:
  "(status \<noteq> 200 \<and> xml_ErrorResponse L body = Some errorResp \<and>
      ErrorResponse_Code errorResp = [] \<longrightarrow>
      IsPublic (checkAccess L config account container (Response status body))) \<and>
   (xml_BlobError L body = Some blobError \<and>
      (Code blobError = [] \<or> Code blobError = ''ResourceNotFound'') \<and>
      checkContainer L F found account container (Response status body # rs) = Some out \<longrightarrow>
      errorSwitch L body = None \<and>
      (isPublic (Some out) \<longleftrightarrow>
         (\<exists>results. xml_EnumerationResults L body = Some results \<and> Blobs results \<noteq> [])))"
  using isPublic_checkContainer [of L F found account container status body rs out]
    errorSwitch_pass [of L body blobError]
  by (auto simp add: checkAccess_def)

text \<open>The theorem at a 404 response whose body is an error document with an empty code.\<close>

theorem empty_or_ResourceNotFound_code_witness:
  "(404::int) \<noteq> 200 \<and>
   xml_ErrorResponse doc_lib (ErrorDoc [] ''none'') =
     Some \<lparr>ErrorResponse_Code = [], ErrorResponse_Message = ''none''\<rparr> \<and>
   xml_BlobError doc_lib (ErrorDoc [] ''none'') = Some \<lparr>Code = [], Message = ''none''\<rparr> \<and>
   checkContainer doc_lib default_flags 0 ''acct1'' ''c1'' [Response 404 (ErrorDoc [] ''none'')] =
     Some \<lparr>exit = NotAccessibleOrEmpty,
           requests = [''https://acct1.blob.core.windows.net/c1?restype=container&comp=list''],
           foundContainers = 0, action = None\<rparr> \<and>
   IsPublic (checkAccess doc_lib sample_config ''acct1'' ''c1''
     (Response 404 (ErrorDoc [] ''none''))) \<and>
   errorSwitch doc_lib (ErrorDoc [] ''none'') = None \<and>
   \<not> (\<exists>results. xml_EnumerationResults doc_lib (ErrorDoc [] ''none'') = Some results \<and>
        Blobs results \<noteq> [])"
  using empty_or_ResourceNotFound_code [where L = doc_lib and config = sample_config
      and account = "''acct1''" and container = "''c1''"
      and body = "ErrorDoc [] ''none''" and F = default_flags and found = 0
      and status = 404 and rs = "[]"
      and errorResp = "\<lparr>ErrorResponse_Code = [], ErrorResponse_Message = ''none''\<rparr>"
      and blobError = "\<lparr>Code = [], Message = ''none''\<rparr>"
      and out = "\<lparr>exit = NotAccessibleOrEmpty,
           requests = [''https://acct1.blob.core.windows.net/c1?restype=container&comp=list''],
           foundContainers = 0, action = None\<rparr>"]
  by (simp add: checkContainer_def errorSwitch_def doc_lib_def default_flags_def)

text \<open>
  Claim C2 as stated fails: \<^verbatim>\<open>checkContainer\<close> does not classify a 404 response as
  public whose body is an error document with the code \<^verbatim>\<open>ResourceNotFound\<close>, or with an
  empty code; such a body does not parse as \<^verbatim>\<open>EnumerationResults\<close>.
\<close>

theorem error_document_not_public:
  "\<not> isPublic (checkContainer doc_lib default_flags 0 ''acct1'' ''c1''
        [Response 404 (ErrorDoc ''ResourceNotFound'' ''The specified resource does not exist.'')]) \<and>
   \<not> isPublic (checkContainer doc_lib default_flags 0 ''acct1'' ''c1''
        [Response 404 (ErrorDoc [] [])])"
  by (simp add: checkContainer_def doc_lib_def errorSwitch_def)

text \<open>
  \<^verbatim>\<open>Scanner.checkAccess\<close> on the code \<^verbatim>\<open>ResourceNotFound\<close>: its test (line 171) is on the
  empty code only, so the code is returned in \<open>ErrorCode\<close> and \<open>IsPublic\<close> stays false,
  where the comment and the debug message of lines 172-174 name \<^verbatim>\<open>ResourceNotFound\<close>
  together with the empty code.
\<close>

lemma checkAccess_ResourceNotFound:
  "checkAccess doc_lib sample_config ''acct1'' ''c1''
     (Response 404 (ErrorDoc ''ResourceNotFound'' ''The specified resource does not exist.'')) =
   \<lparr>Account = ''acct1'', Container = ''c1'', IsPublic = False,
    ErrorCode = ''ResourceNotFound'',
    URL = ''https://acct1.blob.core.windows.net/c1?restype=container'',
    AccessResult_Blobs = []\<rparr>"
  by (simp add: checkAccess_def doc_lib_def sample_config_def)

text \<open>
  Claim C7. The classification is a function of the captured status and body alone.
  For \<^verbatim>\<open>Scanner.checkAccess\<close>, \<open>IsPublic\<close> and \<open>ErrorCode\<close> are the same for any two
  configurations, accounts and containers, and for one account and container the whole
  result but its \<open>URL\<close> (which spells the base domain) is the same for any two
  configurations. For \<^verbatim>\<open>checkContainer\<close>, two runs that return on the same status and
  body classify alike, whatever the flags, the counter, the names and the later
  responses are.
\<close>

theorem classification_deterministic:
  "IsPublic (checkAccess L config1 account1 container1 (Response status body)) =
     IsPublic (checkAccess L config2 account2 container2 (Response status body)) \<and>
   ErrorCode (checkAccess L config1 account1 container1 (Response status body)) =
     ErrorCode (checkAccess L config2 account2 container2 (Response status body)) \<and>
   (checkAccess L config1 account container (Response status body))\<lparr>URL := u\<rparr> =
     (checkAccess L config2 account container (Response status body))\<lparr>URL := u\<rparr> \<and>
   (checkContainer L F1 found1 account1 container1 (Response status body # rs1) = Some out1 \<and>
    checkContainer L F2 found2 account2 container2 (Response status body # rs2) = Some out2 \<longrightarrow>
      isPublic (Some out1) = isPublic (Some out2))"
  using isPublic_checkContainer [of L F1 found1 account1 container1 status body rs1 out1]
    isPublic_checkContainer [of L F2 found2 account2 container2 status body rs2 out2]
  by (simp add: checkAccess_def Let_def split: option.splits)

text \<open>
  The theorem at two runs that capture the same response, under different flags, names,
  counter values and later responses.
\<close>

theorem classification_deterministic_witness:
  "checkContainer doc_lib default_flags 0 ''acct1'' ''c1''
     [Response 200 (ListingDoc [blob ''a''] [])] =
     Some \<lparr>exit = Found (BlobCount 1),
           requests = [''https://acct1.blob.core.windows.net/c1?restype=container&comp=list''],
           foundContainers = 1, action = Some count_only\<rparr> \<and>
   checkContainer doc_lib list_flags 7 ''acct2'' ''c2''
     [Response 200 (ListingDoc [blob ''a''] []), GetError] =
     Some \<lparr>exit = Found (BlobCount 1),
           requests = [''https://acct2.blob.core.windows.net/c2?restype=container&comp=list''],
           foundContainers = 8,
           action = Some (listBlobURLs_call ''acct2'' ''c2'' [blob ''a''])\<rparr> \<and>
   isPublic (Some \<lparr>exit = Found (BlobCount 1),
           requests = [''https://acct1.blob.core.windows.net/c1?restype=container&comp=list''],
           foundContainers = 1, action = Some count_only\<rparr>) =
   isPublic (Some \<lparr>exit = Found (BlobCount 1),
           requests = [''https://acct2.blob.core.windows.net/c2?restype=container&comp=list''],
           foundContainers = 8,
           action = Some (listBlobURLs_call ''acct2'' ''c2'' [blob ''a''])\<rparr>) \<and>
   IsPublic (checkAccess doc_lib sample_config ''acct1'' ''c1''
       (Response 200 (ListingDoc [blob ''a''] []))) =
   IsPublic (checkAccess doc_lib (sample_config\<lparr>Debug := True\<rparr>) ''acct2'' ''c2''
       (Response 200 (ListingDoc [blob ''a''] [])))"
proof -
  have 1: "checkContainer doc_lib default_flags 0 ''acct1'' ''c1''
     [Response 200 (ListingDoc [blob ''a''] [])] =
     Some \<lparr>exit = Found (BlobCount 1),
           requests = [''https://acct1.blob.core.windows.net/c1?restype=container&comp=list''],
           foundContainers = 1, action = Some count_only\<rparr>"
    by (rule checkContainer_one_blob)
  have 2: "checkContainer doc_lib list_flags 7 ''acct2'' ''c2''
     [Response 200 (ListingDoc [blob ''a''] []), GetError] =
     Some \<lparr>exit = Found (BlobCount 1),
           requests = [''https://acct2.blob.core.windows.net/c2?restype=container&comp=list''],
           foundContainers = 8,
           action = Some (listBlobURLs_call ''acct2'' ''c2'' [blob ''a''])\<rparr>"
    by (simp add: checkContainer_def errorSwitch_def report_def collect_def dispatch_def
        doc_lib_def page_def list_flags_def default_flags_def)
  from 1 2 classification_deterministic [where L = doc_lib
      and ?config1.0 = sample_config and ?config2.0 = "sample_config\<lparr>Debug := True\<rparr>"
      and ?account1.0 = "''acct1''" and ?account2.0 = "''acct2''"
      and ?container1.0 = "''c1''" and ?container2.0 = "''c2''"
      and status = 200 and body = "ListingDoc [blob ''a''] []"
      and ?F1.0 = default_flags and ?F2.0 = list_flags and ?found1.0 = 0 and ?found2.0 = 7
      and ?rs1.0 = "[]" and ?rs2.0 = "[GetError]"
      and ?out1.0 = "\<lparr>exit = Found (BlobCount 1),
           requests = [''https://acct1.blob.core.windows.net/c1?restype=container&comp=list''],
           foundContainers = 1, action = Some count_only\<rparr>"
      and ?out2.0 = "\<lparr>exit = Found (BlobCount 1),
           requests = [''https://acct2.blob.core.windows.net/c2?restype=container&comp=list''],
           foundContainers = 8,
           action = Some (listBlobURLs_call ''acct2'' ''c2'' [blob ''a''])\<rparr>"]
  show ?thesis by blast
qed

section \<open>Enumeration\<close>

subsection \<open>The loops, one response at a time\<close>

lemma listLoop_Cons:
  "listLoop L lim U m bs (r # rs) =
     (if m \<noteq> [] \<and> int (length bs) < lim then
        (case decode L r of
           None \<Rightarrow> Some (bs, [markerURL L U m], rs)
         | Some p \<Rightarrow>
             (case listLoop L lim U (NextMarker p) (bs @ Blobs p) rs of
                None \<Rightarrow> None
              | Some (b, u, rest) \<Rightarrow> Some (b, markerURL L U m # u, rest)))
      else Some (bs, [], r # rs))"
  by (cases r) (simp_all add: decode_def markerURL_def Let_def split: option.splits)

lemma countLoop_Cons:
  "countLoop L U m n (r # rs) =
     (if m = [] then Some (n, [], r # rs)
      else
        (case decode L r of
           None \<Rightarrow> Some (n, [markerURL L U m], rs)
         | Some p \<Rightarrow>
             (case countLoop L U (NextMarker p) (n + int (length (Blobs p))) rs of
                None \<Rightarrow> None
              | Some (c, u, rest) \<Rightarrow> Some (c, markerURL L U m # u, rest))))"
  by (cases r) (simp_all add: decode_def markerURL_def Let_def split: option.splits)

lemma listLoop_no_marker: "listLoop L lim U [] bs rs = Some (bs, [], rs)"
  by (cases rs) simp_all

lemma records_Cons: "records (p # ps) = Blobs p @ records ps"
  by (simp add: records_def)

lemma records_Nil: "records [] = []"
  by (simp add: records_def)

subsection \<open>A chain without failures\<close>








subsection \<open>Any walk\<close>

lemma listLoop_walk:
  assumes "listLoop L lim U m bs rs = Some (blobs, urls, rest)"
  shows "\<exists>pages.
           serves L (take (length pages) rs) pages \<and>
           blobs = bs @ records pages \<and>
           urls = map (markerURL L U) (take (length urls) (m # map NextMarker pages)) \<and>
           [] \<notin> set (take (length urls) (m # map NextMarker pages)) \<and>
           rest = drop (length urls) rs \<and>
           (length urls = length pages \<and>
              (last (m # map NextMarker pages) = [] \<or> lim \<le> int (length blobs)) \<or>
            length urls = Suc (length pages) \<and> length pages < length rs \<and>
              decode L (rs ! length pages) = None)"
  using assms
proof (induction rs arbitrary: m bs blobs urls rest)
  case Nil
  then have "blobs = bs \<and> urls = [] \<and> rest = [] \<and> (m = [] \<or> lim \<le> int (length bs))"
    by (auto split: if_splits)
  then show ?case
    by (intro exI [of _ "[]"]) (auto simp: serves_def records_Nil)
next
  case (Cons r rs)
  show ?case
  proof (cases "m \<noteq> [] \<and> int (length bs) < lim")
    case False
    with Cons.prems have "blobs = bs \<and> urls = [] \<and> rest = r # rs"
      by (auto simp: listLoop_Cons simp del: listLoop.simps)
    with False show ?thesis
      by (intro exI [of _ "[]"]) (auto simp: serves_def records_Nil)
  next
    case True
    show ?thesis
    proof (cases "decode L r")
      case None
      with True Cons.prems have "blobs = bs \<and> urls = [markerURL L U m] \<and> rest = rs"
        by (auto simp: listLoop_Cons simp del: listLoop.simps)
      with True None show ?thesis
        by (intro exI [of _ "[]"]) (auto simp: serves_def records_Nil)
    next
      case (Some p)
      with True Cons.prems obtain urls' where
        rec: "listLoop L lim U (NextMarker p) (bs @ Blobs p) rs = Some (blobs, urls', rest)"
        and urls: "urls = markerURL L U m # urls'"
        by (auto simp: listLoop_Cons simp del: listLoop.simps split: option.splits)
      from Cons.IH [OF rec] obtain pages where
        1: "serves L (take (length pages) rs) pages" and
        2: "blobs = (bs @ Blobs p) @ records pages" and
        3: "urls' = map (markerURL L U) (take (length urls') (NextMarker p # map NextMarker pages))" and
        4: "[] \<notin> set (take (length urls') (NextMarker p # map NextMarker pages))" and
        5: "rest = drop (length urls') rs" and
        6: "length urls' = length pages \<and>
              (last (NextMarker p # map NextMarker pages) = [] \<or> lim \<le> int (length blobs)) \<or>
            length urls' = Suc (length pages) \<and> length pages < length rs \<and>
              decode L (rs ! length pages) = None"
        by blast
      have a: "serves L (take (length (p # pages)) (r # rs)) (p # pages)"
        using 1 Some by (simp add: serves_def)
      have b: "blobs = bs @ records (p # pages)"
        using 2 by (simp add: records_Cons)
      have c: "urls = map (markerURL L U) (take (length urls) (m # map NextMarker (p # pages)))"
        using 3 urls by simp
      have d: "[] \<notin> set (take (length urls) (m # map NextMarker (p # pages)))"
        using 4 urls True by auto
      have e: "rest = drop (length urls) (r # rs)"
        using 5 urls by simp
      have f: "length urls = length (p # pages) \<and>
              (last (m # map NextMarker (p # pages)) = [] \<or> lim \<le> int (length blobs)) \<or>
            length urls = Suc (length (p # pages)) \<and> length (p # pages) < length (r # rs) \<and>
              decode L ((r # rs) ! length (p # pages)) = None"
        using 6 urls by simp
      from a b c d e f show ?thesis by blast
    qed
  qed
qed

lemma countLoop_walk:
  assumes "countLoop L U m n rs = Some (cnt, urls, rest)"
  shows "\<exists>pages.
           serves L (take (length pages) rs) pages \<and>
           cnt = n + int (length (records pages)) \<and>
           urls = map (markerURL L U) (take (length urls) (m # map NextMarker pages)) \<and>
           [] \<notin> set (take (length urls) (m # map NextMarker pages)) \<and>
           rest = drop (length urls) rs \<and>
           (length urls = length pages \<and> last (m # map NextMarker pages) = [] \<or>
            length urls = Suc (length pages) \<and> length pages < length rs \<and>
              decode L (rs ! length pages) = None)"
  using assms
proof (induction rs arbitrary: m n cnt urls rest)
  case Nil
  then have "cnt = n \<and> urls = [] \<and> rest = [] \<and> m = []"
    by (auto split: if_splits)
  then show ?case
    by (intro exI [of _ "[]"]) (auto simp: serves_def records_Nil)
next
  case (Cons r rs)
  show ?case
  proof (cases "m = []")
    case True
    with Cons.prems have "cnt = n \<and> urls = [] \<and> rest = r # rs"
      by (auto simp: countLoop_Cons simp del: countLoop.simps)
    with True show ?thesis
      by (intro exI [of _ "[]"]) (auto simp: serves_def records_Nil)
  next
    case False
    show ?thesis
    proof (cases "decode L r")
      case None
      with False Cons.prems have "cnt = n \<and> urls = [markerURL L U m] \<and> rest = rs"
        by (auto simp: countLoop_Cons simp del: countLoop.simps)
      with False None show ?thesis
        by (intro exI [of _ "[]"]) (auto simp: serves_def records_Nil)
    next
      case (Some p)
      with False Cons.prems obtain urls' where
        rec: "countLoop L U (NextMarker p) (n + int (length (Blobs p))) rs = Some (cnt, urls', rest)"
        and urls: "urls = markerURL L U m # urls'"
        by (auto simp: countLoop_Cons simp del: countLoop.simps split: option.splits)
      from Cons.IH [OF rec] obtain pages where
        1: "serves L (take (length pages) rs) pages" and
        2: "cnt = (n + int (length (Blobs p))) + int (length (records pages))" and
        3: "urls' = map (markerURL L U) (take (length urls') (NextMarker p # map NextMarker pages))" and
        4: "[] \<notin> set (take (length urls') (NextMarker p # map NextMarker pages))" and
        5: "rest = drop (length urls') rs" and
        6: "length urls' = length pages \<and> last (NextMarker p # map NextMarker pages) = [] \<or>
            length urls' = Suc (length pages) \<and> length pages < length rs \<and>
              decode L (rs ! length pages) = None"
        by blast
      have a: "serves L (take (length (p # pages)) (r # rs)) (p # pages)"
        using 1 Some by (simp add: serves_def)
      have b: "cnt = n + int (length (records (p # pages)))"
        using 2 by (simp add: records_Cons)
      have c: "urls = map (markerURL L U) (take (length urls) (m # map NextMarker (p # pages)))"
        using 3 urls by simp
      have d: "[] \<notin> set (take (length urls) (m # map NextMarker (p # pages)))"
        using 4 urls False by simp
      have e: "rest = drop (length urls) (r # rs)"
        using 5 urls by simp
      have f: "length urls = length (p # pages) \<and> last (m # map NextMarker (p # pages)) = [] \<or>
            length urls = Suc (length (p # pages)) \<and> length (p # pages) < length (r # rs) \<and>
              decode L ((r # rs) ! length (p # pages)) = None"
        using 6 urls by simp
      from a b c d e f show ?thesis by blast
    qed
  qed
qed

subsection \<open>A walk that meets a failure, and one that meets an empty last page\<close>

lemma listLoop_failure:
  assumes "serves L oks ps" and "\<forall>p\<in>set ps. NextMarker p \<noteq> []" and "m \<noteq> []"
    and "int (length (bs @ records ps)) < lim" and "decode L bad = None"
  shows "listLoop L lim U m bs (oks @ bad # rs') =
           Some (bs @ records ps, map (markerURL L U) (m # map NextMarker ps), rs')"
  using assms
proof (induction ps arbitrary: oks m bs)
  case Nil
  then show ?case
    by (simp add: serves_def records_Nil listLoop_Cons del: listLoop.simps)
next
  case (Cons p ps)
  from Cons.prems obtain r oks' where oks: "oks = r # oks'" and r: "decode L r = Some p"
    and rest: "serves L oks' ps"
    by (auto simp: serves_def)
  from Cons.prems have len: "int (length bs) < lim" by (simp add: records_Cons)
  have "listLoop L lim U (NextMarker p) (bs @ Blobs p) (oks' @ bad # rs') =
          Some ((bs @ Blobs p) @ records ps,
                map (markerURL L U) (NextMarker p # map NextMarker ps), rs')"
    using Cons.prems by (intro Cons.IH [OF rest]) (simp_all add: records_Cons)
  with Cons.prems r len show ?case
    by (simp add: oks listLoop_Cons records_Cons del: listLoop.simps)
qed

lemma listLoop_final:
  assumes "serves L oks ps" and "\<forall>p\<in>set ps. NextMarker p \<noteq> []" and "m \<noteq> []"
    and "int (length (bs @ records ps)) < lim"
    and "decode L fin = Some pe" and "Blobs pe = []" and "NextMarker pe = []"
  shows "listLoop L lim U m bs (oks @ fin # rs') =
           Some (bs @ records ps, map (markerURL L U) (m # map NextMarker ps), rs')"
  using assms
proof (induction ps arbitrary: oks m bs)
  case Nil
  then show ?case
    by (simp add: serves_def records_Nil listLoop_Cons listLoop_no_marker del: listLoop.simps)
next
  case (Cons p ps)
  from Cons.prems obtain r oks' where oks: "oks = r # oks'" and r: "decode L r = Some p"
    and rest: "serves L oks' ps"
    by (auto simp: serves_def)
  from Cons.prems have len: "int (length bs) < lim" by (simp add: records_Cons)
  have "listLoop L lim U (NextMarker p) (bs @ Blobs p) (oks' @ fin # rs') =
          Some ((bs @ Blobs p) @ records ps,
                map (markerURL L U) (NextMarker p # map NextMarker ps), rs')"
    using Cons.prems by (intro Cons.IH [OF rest]) (simp_all add: records_Cons)
  with Cons.prems r len show ?case
    by (simp add: oks listLoop_Cons records_Cons del: listLoop.simps)
qed

lemma collect_failure:
  assumes "5000 < limit F" and "NextMarker p0 \<noteq> []" and "serves L oks ps"
    and "\<forall>p\<in>set ps. NextMarker p \<noteq> []"
    and "int (length (records (p0 # ps))) < limit F" and "decode L bad = None"
  shows "collect L F U p0 (oks @ bad # rs') =
           Some (records (p0 # ps), map (markerURL L U) (NextMarker p0 # map NextMarker ps), rs')"
proof -
  have "listLoop L (limit F) U (NextMarker p0) (Blobs p0) (oks @ bad # rs') =
          Some (Blobs p0 @ records ps, map (markerURL L U) (NextMarker p0 # map NextMarker ps), rs')"
    using assms by (intro listLoop_failure) (simp_all add: records_Cons)
  with assms(1,2,5) show ?thesis
    unfolding collect_def by (simp add: records_Cons)
qed

lemma collect_final:
  assumes "5000 < limit F" and "NextMarker p0 \<noteq> []" and "serves L oks ps"
    and "\<forall>p\<in>set ps. NextMarker p \<noteq> []"
    and "int (length (records (p0 # ps))) < limit F"
    and "decode L fin = Some pe" and "Blobs pe = []" and "NextMarker pe = []"
  shows "collect L F U p0 (oks @ fin # rs') =
           Some (records (p0 # ps), map (markerURL L U) (NextMarker p0 # map NextMarker ps), rs')"
proof -
  have "listLoop L (limit F) U (NextMarker p0) (Blobs p0) (oks @ fin # rs') =
          Some (Blobs p0 @ records ps, map (markerURL L U) (NextMarker p0 # map NextMarker ps), rs')"
    using assms by (intro listLoop_final [where pe = pe]) (simp_all add: records_Cons)
  with assms(1,2,5) show ?thesis
    unfolding collect_def by (simp add: records_Cons)
qed

subsection \<open>The claims on enumeration\<close>

text \<open>In list mode the collected blobs go to \<^verbatim>\<open>listBlobURLs\<close>, which prints one line each.\<close>

lemma dispatch_list_mode:
  assumes "listBlobs F" and "\<not> isDownload F" and "outputPath F = []"
  shows "dispatch F account container bs = listBlobURLs_call account container bs"
    and "length (listBlobURLs F account container bs) = length bs"
  using assms by (simp_all add: dispatch_def listBlobURLs_def)




text \<open>
  Claim C4, as amended. Let the walk of lines 510-556 run (\<^verbatim>\<open>limit\<close> above 5000, a marker
  on the first page), let the pages \<open>ps\<close> be fetched with markers for more and with
  fewer records than the limit in all, and let fetching, reading or parsing the next
  page fail. Then the walk stops at that request, and \<^verbatim>\<open>checkContainer\<close> reports the
  container as found and hands on the records of the first page and of \<open>ps\<close>, in order,
  as it does for any result. The result carries no completeness flag: a chain that ends
  at the same place with an empty last page yields the same blobs, requests and
  remaining responses.
\<close>

theorem partial_result_on_failure:
  assumes "errorSwitch L body = None" and "xml_EnumerationResults L body = Some p0"
    and "Blobs p0 \<noteq> []"
    and "report L F (containerListURL F account container) p0 rs1 = Some (rep, urls1, oks @ bad # rs')"
    and "5000 < limit F" and "NextMarker p0 \<noteq> []" and "serves L oks ps"
    and "\<forall>p\<in>set ps. NextMarker p \<noteq> []"
    and "int (length (records (p0 # ps))) < limit F" and "decode L bad = None"
  shows "checkContainer L F found account container (Response status body # rs1) =
           Some \<lparr>exit = Found rep,
                 requests = containerListURL F account container # urls1 @
                   map (markerURL L (containerListURL F account container))
                     (NextMarker p0 # map NextMarker ps),
                 foundContainers = found + 1,
                 action = Some (dispatch F account container (records (p0 # ps)))\<rparr> \<and>
         (decode L fin = Some pe \<and> Blobs pe = [] \<and> NextMarker pe = [] \<longrightarrow>
            collect L F (containerListURL F account container) p0 (oks @ fin # rs') =
            collect L F (containerListURL F account container) p0 (oks @ bad # rs'))"
proof -
  have c: "collect L F (containerListURL F account container) p0 (oks @ bad # rs') =
        Some (records (p0 # ps),
              map (markerURL L (containerListURL F account container))
                (NextMarker p0 # map NextMarker ps), rs')"
    using assms(5-10) by (rule collect_failure)
  have 1: "checkContainer L F found account container (Response status body # rs1) =
           Some \<lparr>exit = Found rep,
                 requests = containerListURL F account container # urls1 @
                   map (markerURL L (containerListURL F account container))
                     (NextMarker p0 # map NextMarker ps),
                 foundContainers = found + 1,
                 action = Some (dispatch F account container (records (p0 # ps)))\<rparr>"
    using assms(1-4) c by (rule checkContainer_Found)
  have 2: "collect L F (containerListURL F account container) p0 (oks @ fin # rs') =
           collect L F (containerListURL F account container) p0 (oks @ bad # rs')"
    if "decode L fin = Some pe \<and> Blobs pe = [] \<and> NextMarker pe = []"
    using that c collect_final [OF assms(5-9), of fin pe "containerListURL F account container" rs']
    by simp
  from 1 2 show ?thesis by blast
qed

text \<open>The theorem at a walk whose third request fails.\<close>

theorem partial_result_on_failure_witness:
  "checkContainer doc_lib list6000_flags 0 ''acct1'' ''c1''
     [Response 200 (ListingDoc [blob ''a''] ''m1''),
      Response 200 (ListingDoc [blob ''b''] ''m2''), GetError] =
   Some \<lparr>exit = Found (BlobCount 1),
         requests =
           [''https://acct1.blob.core.windows.net/c1?restype=container&comp=list'',
            ''https://acct1.blob.core.windows.net/c1?restype=container&comp=list&marker=m1'',
            ''https://acct1.blob.core.windows.net/c1?restype=container&comp=list&marker=m2''],
         foundContainers = 1,
         action = Some (listBlobURLs_call ''acct1'' ''c1'' [blob ''a'', blob ''b''])\<rparr> \<and>
   collect doc_lib list6000_flags (containerListURL list6000_flags ''acct1'' ''c1'')
     (page [blob ''a''] ''m1'')
     ([Response 200 (ListingDoc [blob ''b''] ''m2'')] @ Response 200 (ListingDoc [] []) # []) =
   collect doc_lib list6000_flags (containerListURL list6000_flags ''acct1'' ''c1'')
     (page [blob ''a''] ''m1'')
     ([Response 200 (ListingDoc [blob ''b''] ''m2'')] @ GetError # [])"
proof -
  let ?U = "containerListURL list6000_flags ''acct1'' ''c1''"
  let ?r2 = "Response 200 (ListingDoc [blob ''b''] ''m2'')"
  have 1: "errorSwitch doc_lib (ListingDoc [blob ''a''] ''m1'') = None"
    by (simp add: errorSwitch_def doc_lib_def)
  have 2: "xml_EnumerationResults doc_lib (ListingDoc [blob ''a''] ''m1'') =
      Some (page [blob ''a''] ''m1'')"
    by (simp add: doc_lib_def)
  have 3: "Blobs (page [blob ''a''] ''m1'') \<noteq> []"
    by (simp add: page_def)
  have 4: "report doc_lib list6000_flags ?U (page [blob ''a''] ''m1'') [?r2, GetError] =
      Some (BlobCount 1, [], [?r2] @ GetError # [])"
    by (simp add: report_def page_def list6000_flags_def default_flags_def)
  have 5: "5000 < limit list6000_flags"
    by (simp add: list6000_flags_def)
  have 6: "NextMarker (page [blob ''a''] ''m1'') \<noteq> []"
    by (simp add: page_def)
  have 7: "serves doc_lib [?r2] [page [blob ''b''] ''m2'']"
    by (simp add: serves_def decode_def doc_lib_def)
  have 8: "\<forall>p\<in>set [page [blob ''b''] ''m2'']. NextMarker p \<noteq> []"
    by (simp add: page_def)
  have 9: "int (length (records (page [blob ''a''] ''m1'' # [page [blob ''b''] ''m2'']))) <
      limit list6000_flags"
    by (simp add: records_def page_def list6000_flags_def)
  have 10: "decode doc_lib GetError = None"
    by (simp add: decode_def)
  have 11: "decode doc_lib (Response 200 (ListingDoc [] [])) = Some (page [] []) \<and>
      Blobs (page [] []) = [] \<and> NextMarker (page [] []) = []"
    by (simp add: decode_def doc_lib_def page_def)
  note w = partial_result_on_failure [OF 1 2 3 4 5 6 7 8 9 10, where found = 0
      and status = 200 and fin = "Response 200 (ListingDoc [] [])" and pe = "page [] []"]
  have e1: "?U # [] @ map (markerURL doc_lib ?U)
        (NextMarker (page [blob ''a''] ''m1'') # map NextMarker [page [blob ''b''] ''m2'']) =
      [''https://acct1.blob.core.windows.net/c1?restype=container&comp=list'',
       ''https://acct1.blob.core.windows.net/c1?restype=container&comp=list&marker=m1'',
       ''https://acct1.blob.core.windows.net/c1?restype=container&comp=list&marker=m2'']"
    by (simp add: containerListURL_def markerURL_def doc_lib_def page_def list6000_flags_def
        default_flags_def)
  have e2: "dispatch list6000_flags ''acct1'' ''c1''
        (records (page [blob ''a''] ''m1'' # [page [blob ''b''] ''m2''])) =
      listBlobURLs_call ''acct1'' ''c1'' [blob ''a'', blob ''b'']"
    by (simp add: dispatch_def records_def page_def list6000_flags_def default_flags_def)
  have e3: "(0::int) + 1 = 1"
    by simp
  from w have A: "checkContainer doc_lib list6000_flags 0 ''acct1'' ''c1''
     [Response 200 (ListingDoc [blob ''a''] ''m1''), ?r2, GetError] =
   Some \<lparr>exit = Found (BlobCount 1),
         requests =
           [''https://acct1.blob.core.windows.net/c1?restype=container&comp=list'',
            ''https://acct1.blob.core.windows.net/c1?restype=container&comp=list&marker=m1'',
            ''https://acct1.blob.core.windows.net/c1?restype=container&comp=list&marker=m2''],
         foundContainers = 1,
         action = Some (listBlobURLs_call ''acct1'' ''c1'' [blob ''a'', blob ''b''])\<rparr>"
    unfolding e1 e2 e3 by (rule conjunct1)
  from w 11 have B: "collect doc_lib list6000_flags ?U (page [blob ''a''] ''m1'')
       ([?r2] @ Response 200 (ListingDoc [] []) # []) =
     collect doc_lib list6000_flags ?U (page [blob ''a''] ''m1'') ([?r2] @ GetError # [])"
    by blast
  from A B show ?thesis by blast
qed

text \<open>
  Claim C4 as stated fails on the flag. A walk cut by a failed request and a chain
  that is complete, its last page being empty, give the same outcome in every field.
\<close>

theorem truncated_equals_complete:
  "checkContainer doc_lib list6000_flags 0 ''acct1'' ''c1''
     [Response 200 (ListingDoc [blob ''a''] ''m1''), GetError] =
   Some \<lparr>exit = Found (BlobCount 1),
         requests =
           [''https://acct1.blob.core.windows.net/c1?restype=container&comp=list'',
            ''https://acct1.blob.core.windows.net/c1?restype=container&comp=list&marker=m1''],
         foundContainers = 1,
         action = Some (listBlobURLs_call ''acct1'' ''c1'' [blob ''a''])\<rparr> \<and>
   checkContainer doc_lib list6000_flags 0 ''acct1'' ''c1''
     [Response 200 (ListingDoc [blob ''a''] ''m1''), Response 200 (ListingDoc [] [])] =
   Some \<lparr>exit = Found (BlobCount 1),
         requests =
           [''https://acct1.blob.core.windows.net/c1?restype=container&comp=list'',
            ''https://acct1.blob.core.windows.net/c1?restype=container&comp=list&marker=m1''],
         foundContainers = 1,
         action = Some (listBlobURLs_call ''acct1'' ''c1'' [blob ''a''])\<rparr>"
  by (simp add: checkContainer_def errorSwitch_def report_def collect_def dispatch_def
      doc_lib_def page_def list6000_flags_def default_flags_def)

text \<open>
  Claim C5, as amended. Whenever one of the two marker walks returns, there are pages,
  decoded from the first responses in order, such that: the request for each page
  carries the marker of the page before it (the first one the marker the walk is
  entered with), and no request is made with an empty marker; the blobs collected (the
  count, for the counting walk) are what the walk held at its start followed by the
  records of these pages in page order; the responses left are those not requested;
  and the walk has stopped either after a page with an empty marker, or, for the
  collecting walk, because the limit is reached, or at a request that failed to be
  fetched, read or parsed.
\<close>

theorem marker_walks:
  "(listLoop L lim U m bs rs = Some (blobs, urls, rest) \<longrightarrow>
      (\<exists>pages.
         serves L (take (length pages) rs) pages \<and>
         blobs = bs @ records pages \<and>
         urls = map (markerURL L U) (take (length urls) (m # map NextMarker pages)) \<and>
         [] \<notin> set (take (length urls) (m # map NextMarker pages)) \<and>
         rest = drop (length urls) rs \<and>
         (length urls = length pages \<and>
            (last (m # map NextMarker pages) = [] \<or> lim \<le> int (length blobs)) \<or>
          length urls = Suc (length pages) \<and> length pages < length rs \<and>
            decode L (rs ! length pages) = None))) \<and>
   (countLoop L U m n rs = Some (cnt, urls, rest) \<longrightarrow>
      (\<exists>pages.
         serves L (take (length pages) rs) pages \<and>
         cnt = n + int (length (records pages)) \<and>
         urls = map (markerURL L U) (take (length urls) (m # map NextMarker pages)) \<and>
         [] \<notin> set (take (length urls) (m # map NextMarker pages)) \<and>
         rest = drop (length urls) rs \<and>
         (length urls = length pages \<and> last (m # map NextMarker pages) = [] \<or>
          length urls = Suc (length pages) \<and> length pages < length rs \<and>
            decode L (rs ! length pages) = None)))"
  using listLoop_walk [of L lim U m bs rs blobs urls rest]
    countLoop_walk [of L U m n rs cnt urls rest]
  by blast

text \<open>The theorem at a chain of two further pages.\<close>

theorem marker_walks_witness:
  "listLoop doc_lib 6000 ''u'' ''m1'' [blob ''a''] walk_responses =
     Some ([blob ''a'', blob ''b'', blob ''c''], [''u&marker=m1'', ''u&marker=m2''], []) \<and>
   countLoop doc_lib ''u'' ''m1'' 1 walk_responses =
     Some (3, [''u&marker=m1'', ''u&marker=m2''], []) \<and>
   (\<exists>pages.
      serves doc_lib (take (length pages) walk_responses) pages \<and>
      [blob ''a'', blob ''b'', blob ''c''] = [blob ''a''] @ records pages \<and>
      [''u&marker=m1'', ''u&marker=m2''] =
        map (markerURL doc_lib ''u'')
          (take (length [''u&marker=m1'', ''u&marker=m2'']) (''m1'' # map NextMarker pages)) \<and>
      [] \<notin> set (take (length [''u&marker=m1'', ''u&marker=m2''])
                 (''m1'' # map NextMarker pages)) \<and>
      [] = drop (length [''u&marker=m1'', ''u&marker=m2'']) walk_responses \<and>
      (length [''u&marker=m1'', ''u&marker=m2''] = length pages \<and>
         (last (''m1'' # map NextMarker pages) = [] \<or>
          6000 \<le> int (length [blob ''a'', blob ''b'', blob ''c''])) \<or>
       length [''u&marker=m1'', ''u&marker=m2''] = Suc (length pages) \<and>
         length pages < length walk_responses \<and>
         decode doc_lib (walk_responses ! length pages) = None))"
proof -
  have l: "listLoop doc_lib 6000 ''u'' ''m1'' [blob ''a''] walk_responses =
     Some ([blob ''a'', blob ''b'', blob ''c''], [''u&marker=m1'', ''u&marker=m2''], [])"
    by (simp add: doc_lib_def page_def walk_responses_def)
  have c: "countLoop doc_lib ''u'' ''m1'' 1 walk_responses =
     Some (3, [''u&marker=m1'', ''u&marker=m2''], [])"
    by (simp add: doc_lib_def page_def walk_responses_def)
  from l c marker_walks [where L = doc_lib and lim = 6000 and U = "''u''" and m = "''m1''"
      and bs = "[blob ''a'']" and n = 1 and cnt = 3 and rs = walk_responses
      and blobs = "[blob ''a'', blob ''b'', blob ''c'']"
      and urls = "[''u&marker=m1'', ''u&marker=m2'']" and rest = "[]"]
  show ?thesis by blast
qed

text \<open>
  Claim C5 as stated fails. With the default limit the marker of the first page is not
  followed at all: the walk ends after a page whose marker is not empty, and the record
  of the second page is missing from the output. With a limit above 5000, the walk
  below ends at a response that does not parse: no page returned an empty marker, and
  the response after it is never requested.
\<close>

theorem walk_stops_early:
  "checkContainer doc_lib list_flags 0 ''acct1'' ''c1''
     [Response 200 (ListingDoc [blob ''a''] ''m1''), Response 200 (ListingDoc [blob ''b''] [])] =
   Some \<lparr>exit = Found (BlobCount 1),
         requests = [''https://acct1.blob.core.windows.net/c1?restype=container&comp=list''],
         foundContainers = 1,
         action = Some (listBlobURLs_call ''acct1'' ''c1'' [blob ''a''])\<rparr> \<and>
   checkContainer doc_lib list6000_flags 0 ''acct1'' ''c1''
     [Response 200 (ListingDoc [blob ''a''] ''m1''), Response 200 Malformed,
      Response 200 (ListingDoc [blob ''b''] [])] =
   Some \<lparr>exit = Found (BlobCount 1),
         requests =
           [''https://acct1.blob.core.windows.net/c1?restype=container&comp=list'',
            ''https://acct1.blob.core.windows.net/c1?restype=container&comp=list&marker=m1''],
         foundContainers = 1,
         action = Some (listBlobURLs_call ''acct1'' ''c1'' [blob ''a''])\<rparr>"
  by (simp add: checkContainer_def errorSwitch_def report_def collect_def dispatch_def
      doc_lib_def page_def list_flags_def list6000_flags_def default_flags_def)

section \<open>The scan driver\<close>









text \<open>In list mode the workers see the limit as it was given.\<close>

lemma effectiveFlags_list_mode:
  assumes "listBlobs F" and "Run processInput domainExists F \<noteq> [ConfigError]"
  shows "effectiveFlags F = F"
  using assms unfolding Run_def effectiveFlags_def by (auto split: if_splits)

lemma sample_run:
  "Run sample_input sample_dns scan_flags =
     [LookupHost ''acct1.blob.core.windows.net'', Skipped ''acct1'' 1,
      LookupHost ''acct2.blob.core.windows.net'', Acquire ''acct2'' ''c1'', Go ''acct2'' ''c1'',
      WaitAll, Summary]"
  by (simp add: Run_def sample_input_def sample_dns_def scan_flags_def default_flags_def)



text \<open>
  Claim C9. When both an output path and the list flag are given, the run prints the
  error and returns: it makes no name lookup and starts no worker, hence no probe and
  no enumeration.
\<close>

theorem output_with_list_rejected:
  assumes "outputPath F \<noteq> []" and "listBlobs F"
  shows "Run processInput domainExists F = [ConfigError] \<and>
         lookups (Run processInput domainExists F) = [] \<and>
         jobs (Run processInput domainExists F) = []"
  using assms by (simp add: Run_def)

text \<open>The theorem at the sample scan with \<^verbatim>\<open>--output\<close> and \<^verbatim>\<open>--list\<close> both given.\<close>

theorem output_with_list_rejected_witness:
  "outputPath (scan_flags\<lparr>outputPath := ''out.txt'', listBlobs := True\<rparr>) \<noteq> [] \<and>
   listBlobs (scan_flags\<lparr>outputPath := ''out.txt'', listBlobs := True\<rparr>) \<and>
   Run sample_input sample_dns (scan_flags\<lparr>outputPath := ''out.txt'', listBlobs := True\<rparr>) =
     [ConfigError]"
  using output_with_list_rejected [where processInput = sample_input
      and domainExists = sample_dns
      and F = "scan_flags\<lparr>outputPath := ''out.txt'', listBlobs := True\<rparr>"]
  by simp

subsection \<open>The bound on the probes in flight\<close>

lemma balanced_start: "0 \<le> N \<Longrightarrow> balanced N (start js)"
  by (simp add: balanced_def start_def)

lemma balanced_step: "step N s t \<Longrightarrow> balanced N s \<Longrightarrow> balanced N t"
  by (induction rule: step.induct) (auto simp: balanced_def)

lemma balanced_steps: "(step N)\<^sup>*\<^sup>* s t \<Longrightarrow> balanced N s \<Longrightarrow> balanced N t"
  by (induction rule: rtranclp_induct) (auto intro: balanced_step)

text \<open>
  Claim C8. In every state the scan can reach, under any interleaving of the main
  goroutine with its workers, the number of workers inside \<^verbatim>\<open>checkContainer\<close> is at most
  \<^verbatim>\<open>maxGoroutines\<close>. The one channel \<^verbatim>\<open>sem\<close> is shared by all pairs of the scan; a slot is
  taken before the worker of a pair is started and given back after its
  \<^verbatim>\<open>checkContainer\<close> has returned. (For a negative \<^verbatim>\<open>maxGoroutines\<close> the run panics
  before the loop.)
\<close>

theorem probes_bounded:
  assumes "0 \<le> maxGoroutines F"
    and "(step (maxGoroutines F))\<^sup>*\<^sup>* (start (jobs (Run processInput domainExists F))) s"
  shows "int (length (probing s)) \<le> maxGoroutines F"
proof -
  have "balanced (maxGoroutines F) s"
    using assms by (intro balanced_steps [OF assms(2)] balanced_start)
  then show ?thesis by (simp add: balanced_def)
qed

text \<open>The theorem at the sample scan, in the state where its one worker is probing.\<close>

theorem probes_bounded_witness:
  "0 \<le> maxGoroutines scan_flags \<and>
   (step (maxGoroutines scan_flags))\<^sup>*\<^sup>*
     (start (jobs (Run sample_input sample_dns scan_flags))) one_probing \<and>
   int (length (probing one_probing)) \<le> maxGoroutines scan_flags"
proof -
  let ?j = "(''acct2'', ''c1'')"
  let ?mid = "\<lparr>pending = [], acquired = Some ?j, sem = 1, probing = [], releasing = 0\<rparr>"
  have N: "maxGoroutines scan_flags = 1"
    by (simp add: scan_flags_def)
  have js: "jobs (Run sample_input sample_dns scan_flags) = [?j]"
    by (simp add: sample_run)
  have s1: "step 1 (start [?j]) ?mid"
    using step.send [of "start [?j]" ?j "[]" 1] by (simp add: start_def)
  have s2: "step 1 ?mid one_probing"
    using step.spawn [of ?mid ?j 1] by (simp add: one_probing_def)
  have reach: "(step (maxGoroutines scan_flags))\<^sup>*\<^sup>*
      (start (jobs (Run sample_input sample_dns scan_flags))) one_probing"
    unfolding N js
    by (rule rtranclp.rtrancl_into_rtrancl [of "step 1", OF r_into_rtranclp [of "step 1", OF s1] s2])
  have pos: "0 \<le> maxGoroutines scan_flags"
    by (simp add: N)
  from pos reach probes_bounded [OF pos reach] show ?thesis by blast
qed

section \<open>Download\<close>

text \<open>
  Claim C10. \<^verbatim>\<open>DownloadFile\<close> creates the destination file, truncating what was there,
  before it sends the request. So when the directory and the file can be created and
  then the request fails, or the status is not 200, or the copy of the body fails, the
  function returns an error and leaves at the destination an empty file, or, after a
  failed copy, the bytes written so far: whatever the path held before is lost.
\<close>

theorem DownloadFile_truncates_before_fetch:
  assumes "mkdir_ok E" and "create_ok E"
  shows "(fetch E = None \<longrightarrow>
            DownloadFile E files destPath = (Inl RequestFailed, files(destPath \<mapsto> []))) \<and>
         (fetch E = Some (status, body) \<and> status \<noteq> 200 \<longrightarrow>
            DownloadFile E files destPath = (Inl (BadStatus status), files(destPath \<mapsto> []))) \<and>
         (fetch E = Some (200, body) \<and> copy_stops E = Some k \<longrightarrow>
            DownloadFile E files destPath = (Inl WriteFailed, files(destPath \<mapsto> take k body)))"
  using assms by (simp add: DownloadFile_def)

text \<open>
  The theorem at a destination that holds an old file, for a failed request, a 404
  response, and a copy that fails after three bytes.
\<close>

theorem DownloadFile_truncates_before_fetch_witness:
  "mkdir_ok (sample_env None None) \<and> create_ok (sample_env None None) \<and>
   DownloadFile (sample_env None None) [''out/a.txt'' \<mapsto> ''old content''] ''out/a.txt'' =
     (Inl RequestFailed, [''out/a.txt'' \<mapsto> []]) \<and>
   DownloadFile (sample_env (Some (404, ''BlobNotFound'')) None)
       [''out/a.txt'' \<mapsto> ''old content''] ''out/a.txt'' =
     (Inl (BadStatus 404), [''out/a.txt'' \<mapsto> []]) \<and>
   DownloadFile (sample_env (Some (200, ''new content'')) (Some 3))
       [''out/a.txt'' \<mapsto> ''old content''] ''out/a.txt'' =
     (Inl WriteFailed, [''out/a.txt'' \<mapsto> ''new''])"
proof -
  have ok: "mkdir_ok (sample_env r c)" "create_ok (sample_env r c)" for r c
    by (simp_all add: sample_env_def)
  have f1: "fetch (sample_env None None) = None"
    by (simp add: sample_env_def)
  have f2: "fetch (sample_env (Some (404, ''BlobNotFound'')) None) = Some (404, ''BlobNotFound'') \<and>
      (404::int) \<noteq> 200"
    by (simp add: sample_env_def)
  have f3: "fetch (sample_env (Some (200, ''new content'')) (Some 3)) = Some (200, ''new content'') \<and>
      copy_stops (sample_env (Some (200, ''new content'')) (Some 3)) = Some 3"
    by (simp add: sample_env_def)
  from f1 DownloadFile_truncates_before_fetch [where E = "sample_env None None"
      and files = "[''out/a.txt'' \<mapsto> ''old content'']" and destPath = "''out/a.txt''", OF ok]
  have 1: "DownloadFile (sample_env None None) [''out/a.txt'' \<mapsto> ''old content''] ''out/a.txt'' =
     (Inl RequestFailed, [''out/a.txt'' \<mapsto> []])"
    by simp
  from f2 DownloadFile_truncates_before_fetch [where
      E = "sample_env (Some (404, ''BlobNotFound'')) None"
      and status = 404 and body = "''BlobNotFound''"
      and files = "[''out/a.txt'' \<mapsto> ''old content'']" and destPath = "''out/a.txt''", OF ok]
  have 2: "DownloadFile (sample_env (Some (404, ''BlobNotFound'')) None)
       [''out/a.txt'' \<mapsto> ''old content''] ''out/a.txt'' =
     (Inl (BadStatus 404), [''out/a.txt'' \<mapsto> []])"
    by simp
  from f3 DownloadFile_truncates_before_fetch [where
      E = "sample_env (Some (200, ''new content'')) (Some 3)"
      and body = "''new content''" and k = 3
      and files = "[''out/a.txt'' \<mapsto> ''old content'']" and destPath = "''out/a.txt''", OF ok]
  have 3: "DownloadFile (sample_env (Some (200, ''new content'')) (Some 3))
       [''out/a.txt'' \<mapsto> ''old content''] ''out/a.txt'' =
     (Inl WriteFailed, [''out/a.txt'' \<mapsto> ''new''])"
    by simp
  from ok 1 2 3 show ?thesis by blast
qed

end
